theory Spec2Isabelle
  imports Main "HOL-Library.AList"
begin

section \<open>Instants and durations\<close>

text \<open>
  A \<^verbatim>\<open>datetime\<close> is an instant in UTC, counted in microseconds since the epoch (the
  resolution of Python's \<^verbatim>\<open>datetime\<close>); a \<^verbatim>\<open>timedelta\<close> is a number of microseconds.
  The clock reading \<^verbatim>\<open>datetime.now(timezone.utc)\<close> is the parameter \<open>now\<close> of every
  operation: the readings taken inside one request are the same instant.
  \<open>timegm\<close> is the whole number of seconds of an instant, which is what the token library
  writes into and compares with the \<^verbatim>\<open>exp\<close> claim.
\<close>

type_synonym datetime = int
type_synonym timedelta = int

definition seconds :: "int \<Rightarrow> timedelta" where
  "seconds s = s * 1000000"

definition minutes :: "int \<Rightarrow> timedelta" where
  "minutes m = m * 60000000"

definition hours :: "int \<Rightarrow> timedelta" where
  "hours h = h * 3600000000"

definition timegm :: "datetime \<Rightarrow> int" where
  "timegm t = t div 1000000"




section \<open>Configuration (app/config.py)\<close>

record settings =
  secret_key :: string
  verification_token_expire_hours :: int

definition default_settings :: settings where
  "default_settings =
     \<lparr>secret_key = ''your-secret-key-here-change-in-production'',
      verification_token_expire_hours = 24\<rparr>"

definition ACCESS_TOKEN_EXPIRE_MINUTES :: int where
  "ACCESS_TOKEN_EXPIRE_MINUTES = 30"

section \<open>Claims and signed tokens\<close>

text \<open>
  Claims are a Python \<^verbatim>\<open>dict\<close> from strings to JSON values, kept as an association list
  in insertion order. \<open>dict_get\<close> is \<^verbatim>\<open>payload.get(key)\<close>: Python's \<^verbatim>\<open>None\<close> for a
  missing key is \<open>JNull\<close>, the value a JSON \<^verbatim>\<open>null\<close> has as well.
\<close>

datatype jvalue = JNull | JBool bool | JInt int | JStr string

type_synonym claims = "(string \<times> jvalue) list"

definition dict_get :: "claims \<Rightarrow> string \<Rightarrow> jvalue" where
  "dict_get d k = (case map_of d k of None \<Rightarrow> JNull | Some v \<Rightarrow> v)"

text \<open>
  The signing primitive \<^verbatim>\<open>jose.jwt\<close> is an external library. It is modelled symbolically:
  a token string is either the HS256 serialisation \<open>JWS key c\<close> of the claims \<open>c\<close> under the
  secret \<open>key\<close>, or some other string \<open>Opaque s\<close>. Decoding raises \<^verbatim>\<open>JWTError\<close> when the
  string is not a serialisation or the signature was made with another secret, and then
  validates the registered claims, in the library's order:
  \<^item> \<^verbatim>\<open>exp\<close>, when present, is converted with \<^verbatim>\<open>int()\<close> (\<open>py_int\<close>: an integer, a
    boolean or a decimal string; anything else is a claims error) and must not be smaller
    than the current second;
  \<^item> \<^verbatim>\<open>aud\<close> must be absent, since the routes pass no audience;
  \<^item> \<^verbatim>\<open>sub\<close> and \<^verbatim>\<open>jti\<close>, when present, must be strings;
  \<^item> \<^verbatim>\<open>at_hash\<close> must be absent, since the routes pass no access token to compare.

  Two things the library does are not in the model. It checks \<^verbatim>\<open>iat\<close> and \<^verbatim>\<open>nbf\<close>
  before \<^verbatim>\<open>exp\<close>; and for a time claim that is \<^verbatim>\<open>null\<close> its \<^verbatim>\<open>int()\<close> raises a
  \<^verbatim>\<open>TypeError\<close>, which is no \<^verbatim>\<open>JWTError\<close>, where \<open>py_int\<close> answers a claims error. No
  route signs a token with \<^verbatim>\<open>iat\<close>, \<^verbatim>\<open>nbf\<close> or a \<^verbatim>\<open>null\<close> claim; a statement about
  arbitrary claims that would depend on them excludes them by a hypothesis.
\<close>

datatype token = JWS string claims | Opaque string

datatype jose_error = JWTError | ExpiredSignatureError | JWTClaimsError

definition jwt_encode :: "claims \<Rightarrow> string \<Rightarrow> token" where
  "jwt_encode c key = JWS key c"

definition is_space :: "char \<Rightarrow> bool" where
  "is_space ch = (let n = (of_char ch :: nat) in n = 32 \<or> (9 \<le> n \<and> n \<le> 13) \<or> (28 \<le> n \<and> n \<le> 31))"

definition digit_of :: "char \<Rightarrow> nat option" where
  "digit_of ch = (let n = (of_char ch :: nat) in if 48 \<le> n \<and> n \<le> 57 then Some (n - 48) else None)"

fun digits_value :: "string \<Rightarrow> bool \<Rightarrow> nat \<Rightarrow> nat option" where
  "digits_value [] seen acc = (if seen then Some acc else None)"
| "digits_value (ch # cs) seen acc =
     (case digit_of ch of
        Some d \<Rightarrow> digits_value cs True (10 * acc + d)
      | None \<Rightarrow> if ch = CHR ''_'' \<and> seen then digits_value cs False acc else None)"

definition int_of_str :: "string \<Rightarrow> int option" where
  "int_of_str s =
     (let t = rev (dropWhile is_space (rev (dropWhile is_space s)))
      in case t of
           [] \<Rightarrow> None
         | ch # cs \<Rightarrow>
             if ch = CHR ''-'' then map_option (\<lambda>n. - int n) (digits_value cs False 0)
             else if ch = CHR ''+'' then map_option int (digits_value cs False 0)
             else map_option int (digits_value t False 0))"

fun py_int :: "jvalue \<Rightarrow> int option" where
  "py_int (JInt i) = Some i"
| "py_int (JBool b) = Some (if b then 1 else 0)"
| "py_int (JStr s) = int_of_str s"
| "py_int JNull = None"

definition validate_exp :: "claims \<Rightarrow> datetime \<Rightarrow> jose_error option" where
  "validate_exp c now =
     (case map_of c ''exp'' of
        None \<Rightarrow> None
      | Some v \<Rightarrow>
          (case py_int v of
             None \<Rightarrow> Some JWTClaimsError
           | Some e \<Rightarrow> if e < timegm now then Some ExpiredSignatureError else None))"

definition validate_aud :: "claims \<Rightarrow> jose_error option" where
  "validate_aud c = (case map_of c ''aud'' of None \<Rightarrow> None | Some v \<Rightarrow> Some JWTClaimsError)"

definition validate_sub :: "claims \<Rightarrow> jose_error option" where
  "validate_sub c =
     (case map_of c ''sub'' of
        None \<Rightarrow> None
      | Some (JStr s) \<Rightarrow> None
      | Some _ \<Rightarrow> Some JWTClaimsError)"

definition validate_jti :: "claims \<Rightarrow> jose_error option" where
  "validate_jti c =
     (case map_of c ''jti'' of
        None \<Rightarrow> None
      | Some (JStr s) \<Rightarrow> None
      | Some _ \<Rightarrow> Some JWTClaimsError)"

definition validate_at_hash :: "claims \<Rightarrow> jose_error option" where
  "validate_at_hash c =
     (case map_of c ''at_hash'' of None \<Rightarrow> None | Some v \<Rightarrow> Some JWTClaimsError)"

fun first_error :: "jose_error option list \<Rightarrow> jose_error option" where
  "first_error [] = None"
| "first_error (None # rs) = first_error rs"
| "first_error (Some e # rs) = Some e"

definition validate_claims :: "claims \<Rightarrow> datetime \<Rightarrow> jose_error option" where
  "validate_claims c now =
     first_error [validate_exp c now, validate_aud c, validate_sub c, validate_jti c,
                  validate_at_hash c]"

fun jwt_decode :: "token \<Rightarrow> string \<Rightarrow> datetime \<Rightarrow> jose_error + claims" where
  "jwt_decode (Opaque s) key now = Inl JWTError"
| "jwt_decode (JWS k c) key now =
     (if k \<noteq> key then Inl JWTError
      else case validate_claims c now of
             Some e \<Rightarrow> Inl e
           | None \<Rightarrow> Inr c)"



section \<open>Token codec (app/utils/auth.py)\<close>

text \<open>
  \<^verbatim>\<open>if expires_delta:\<close> is false for \<^verbatim>\<open>None\<close> and for the zero duration. The
  \<^verbatim>\<open>datetime\<close> stored under \<^verbatim>\<open>exp\<close> is serialised by the library as whole seconds.
\<close>

definition create_access_token :: "settings \<Rightarrow> datetime \<Rightarrow> claims \<Rightarrow> timedelta option \<Rightarrow> token" where
  "create_access_token cfg now data expires_delta =
     (let expire = (case expires_delta of
                      Some d \<Rightarrow> if d \<noteq> 0 then now + d
                                else now + minutes ACCESS_TOKEN_EXPIRE_MINUTES
                    | None \<Rightarrow> now + minutes ACCESS_TOKEN_EXPIRE_MINUTES);
          to_encode = AList.update ''exp'' (JInt (timegm expire)) data
      in jwt_encode to_encode (secret_key cfg))"

definition decode_access_token :: "settings \<Rightarrow> datetime \<Rightarrow> token \<Rightarrow> claims option" where
  "decode_access_token cfg now tok =
     (case jwt_decode tok (secret_key cfg) now of
        Inr payload \<Rightarrow> Some payload
      | Inl _ \<Rightarrow> None)"

definition create_verification_token :: "settings \<Rightarrow> datetime \<Rightarrow> int \<Rightarrow> string \<Rightarrow> token" where
  "create_verification_token cfg now user_id email =
     (let expires_delta = hours (verification_token_expire_hours cfg);
          expire = now + expires_delta;
          to_encode = [(''sub'', JStr email),
                       (''user_id'', JInt user_id),
                       (''type'', JStr ''email_verification''),
                       (''exp'', JInt (timegm expire))]
      in jwt_encode to_encode (secret_key cfg))"

definition verify_verification_token :: "settings \<Rightarrow> datetime \<Rightarrow> token \<Rightarrow> claims option" where
  "verify_verification_token cfg now tok =
     (case jwt_decode tok (secret_key cfg) now of
        Inr payload \<Rightarrow>
          if dict_get payload ''type'' \<noteq> JStr ''email_verification'' then None
          else Some payload
      | Inl _ \<Rightarrow> None)"

section \<open>Credential hasher (app/utils/auth.py)\<close>

text \<open>
  The hashing context \<^verbatim>\<open>CryptContext(schemes=["argon2"])\<close> is an external library, modelled
  symbolically as well. A stored string is one of three kinds: \<open>Argon2 salt p\<close>, the
  argon2 hash string of the password \<open>p\<close> under a salt; \<open>MalformedArgon2 s\<close>, a string
  that begins like an argon2 hash and is none; \<open>Unidentified s\<close>, a string without the
  prefix of the scheme. The context first identifies the scheme and raises
  \<^verbatim>\<open>UnknownHashError\<close> when it cannot; the handler then refuses a secret of more than
  4096 characters with \<^verbatim>\<open>PasswordSizeError\<close>, and the backend raises a
  \<^verbatim>\<open>ValueError\<close> for a string it cannot parse. Hashing refuses an oversized secret in the
  same way. The salt the library draws at random is a parameter of \<open>get_password_hash\<close>.
\<close>

datatype pwhash = Argon2 string string | MalformedArgon2 string | Unidentified string

datatype failure =
    HTTPException nat string "(string \<times> string) list"
  | UnknownHashError
  | PasswordSizeError
  | ValueError
  | TypeError
  | MultipleResultsFound

definition MAX_PASSWORD_SIZE :: nat where
  "MAX_PASSWORD_SIZE = 4096"

definition malformed_hash :: "pwhash \<Rightarrow> bool" where
  "malformed_hash h = (case h of Argon2 salt password \<Rightarrow> False | _ \<Rightarrow> True)"

definition pwd_context_hash :: "string \<Rightarrow> string \<Rightarrow> failure + pwhash" where
  "pwd_context_hash salt password =
     (if MAX_PASSWORD_SIZE < length password then Inl PasswordSizeError
      else Inr (Argon2 salt password))"

fun pwd_context_verify :: "string \<Rightarrow> pwhash \<Rightarrow> failure + bool" where
  "pwd_context_verify secret (Unidentified s) = Inl UnknownHashError"
| "pwd_context_verify secret (Argon2 salt password) =
     (if MAX_PASSWORD_SIZE < length secret then Inl PasswordSizeError
      else Inr (secret = password))"
| "pwd_context_verify secret (MalformedArgon2 s) =
     (if MAX_PASSWORD_SIZE < length secret then Inl PasswordSizeError
      else Inl ValueError)"

definition verify_password :: "string \<Rightarrow> pwhash \<Rightarrow> failure + bool" where
  "verify_password plain_password hashed_password =
     pwd_context_verify plain_password hashed_password"

definition get_password_hash :: "string \<Rightarrow> string \<Rightarrow> failure + pwhash" where
  "get_password_hash salt password = pwd_context_hash salt password"

section \<open>The User table (app/models/database.py) and the session\<close>

record user =
  id_user :: int
  email :: string
  username :: string
  hashed_password :: pwhash
  email_verified :: bool
  verification_token :: "token option"
  verification_token_expires :: "datetime option"

text \<open>
  The session is the list of rows of the table. \<open>scalar_one_or_none\<close> is SQLAlchemy's:
  no row gives \<^verbatim>\<open>None\<close>, one row gives that row, more rows raise. A \<^verbatim>\<open>where\<close> clause
  compares a column with the Python value it is given, so a string column equals only
  that string. \<open>add_user\<close> is \<^verbatim>\<open>db.add\<close> with \<^verbatim>\<open>flush\<close> and \<^verbatim>\<open>refresh\<close>: the row gets the
  next primary key and the column defaults. \<open>flush_user\<close> writes a changed object back
  to the row with its primary key. \<open>get_db\<close> commits the session when the route
  returns and rolls it back when the route raises.

  The column \<^verbatim>\<open>verification_token_expires\<close> is a \<^verbatim>\<open>DateTime\<close> without time zone: the
  row keeps the instant, and a route that loads the row gets a naive \<^verbatim>\<open>datetime\<close>,
  while \<^verbatim>\<open>datetime.now(timezone.utc)\<close> is aware. Python orders two naive or two aware
  values and raises \<^verbatim>\<open>TypeError\<close> when asked to order one of each (\<open>datetime_lt\<close>).
\<close>

datatype pydatetime = Naive datetime | Aware datetime

fun datetime_lt :: "pydatetime \<Rightarrow> pydatetime \<Rightarrow> failure + bool" where
  "datetime_lt (Naive a) (Naive b) = Inr (a < b)"
| "datetime_lt (Aware a) (Aware b) = Inr (a < b)"
| "datetime_lt (Naive a) (Aware b) = Inl TypeError"
| "datetime_lt (Aware a) (Naive b) = Inl TypeError"

type_synonym session = "user list"

fun scalar_one_or_none :: "'a list \<Rightarrow> failure + 'a option" where
  "scalar_one_or_none [] = Inr None"
| "scalar_one_or_none [x] = Inr (Some x)"
| "scalar_one_or_none (x # y # zs) = Inl MultipleResultsFound"

definition next_id :: "session \<Rightarrow> int" where
  "next_id db = fold max (map id_user db) 0 + 1"

definition add_user :: "session \<Rightarrow> string \<Rightarrow> string \<Rightarrow> pwhash \<Rightarrow> bool \<Rightarrow> user \<times> session" where
  "add_user db e n h v =
     (let db_user = \<lparr>id_user = next_id db, email = e, username = n, hashed_password = h,
                      email_verified = v, verification_token = None,
                      verification_token_expires = None\<rparr>
      in (db_user, db @ [db_user]))"

definition flush_user :: "session \<Rightarrow> user \<Rightarrow> session" where
  "flush_user db u = map (\<lambda>r. if id_user r = id_user u then u else r) db"

definition get_db :: "session \<Rightarrow> failure + ('a \<times> session) \<Rightarrow> session" where
  "get_db db outcome = (case outcome of Inr (r, db') \<Rightarrow> db' | Inl e \<Rightarrow> db)"

section \<open>Response schemas (app/models/schemas.py)\<close>

datatype MessageResponse = MessageResponse string bool

datatype Token = Token token string


section \<open>Routes (app/routes/auth.py)\<close>

definition get_user_by_username :: "session \<Rightarrow> jvalue \<Rightarrow> failure + user option" where
  "get_user_by_username db n = scalar_one_or_none (filter (\<lambda>u. JStr (username u) = n) db)"

definition get_user_by_email :: "session \<Rightarrow> jvalue \<Rightarrow> failure + user option" where
  "get_user_by_email db e = scalar_one_or_none (filter (\<lambda>u. JStr (email u) = e) db)"

definition select_user_by_id :: "session \<Rightarrow> jvalue \<Rightarrow> failure + user option" where
  "select_user_by_id db user_id =
     scalar_one_or_none (filter (\<lambda>u. JInt (id_user u) = user_id) db)"

definition authenticate_user :: "session \<Rightarrow> string \<Rightarrow> string \<Rightarrow> failure + user option" where
  "authenticate_user db n password =
     (case get_user_by_username db (JStr n) of
        Inl e \<Rightarrow> Inl e
      | Inr None \<Rightarrow> Inr None
      | Inr (Some u) \<Rightarrow>
          (case verify_password password (hashed_password u) of
             Inl e \<Rightarrow> Inl e
           | Inr ok \<Rightarrow> if \<not> ok then Inr None else Inr (Some u)))"

definition credentials_exception :: failure where
  "credentials_exception =
     HTTPException 401 ''Could not validate credentials'' [(''WWW-Authenticate'', ''Bearer'')]"

definition get_current_user :: "settings \<Rightarrow> datetime \<Rightarrow> session \<Rightarrow> token \<Rightarrow> failure + user" where
  "get_current_user cfg now db tok =
     (case decode_access_token cfg now tok of
        None \<Rightarrow> Inl credentials_exception
      | Some payload \<Rightarrow>
          (let n = dict_get payload ''sub'';
               user_id = dict_get payload ''user_id''
           in if n = JNull \<or> user_id = JNull then Inl credentials_exception
              else (case get_user_by_username db n of
                      Inl e \<Rightarrow> Inl e
                    | Inr None \<Rightarrow> Inl credentials_exception
                    | Inr (Some u) \<Rightarrow> Inr u)))"

text \<open>
  The request body of \<open>register\<close> (\<^verbatim>\<open>UserCreate\<close>) is passed as its three fields; the
  framework has validated them before the route runs (\<open>valid_UserCreate\<close> has the
  length bounds of the schema; the address syntax of \<^verbatim>\<open>EmailStr\<close> is not modelled).
  Sending the mail changes neither the session nor the response: its failure is caught
  and printed.
\<close>

definition register :: "settings \<Rightarrow> datetime \<Rightarrow> string \<Rightarrow> session \<Rightarrow> string \<Rightarrow> string \<Rightarrow> string
    \<Rightarrow> failure + (user \<times> session)" where
  "register cfg now salt db e n password =
     (case get_user_by_username db (JStr n) of
        Inl err \<Rightarrow> Inl err
      | Inr (Some existing_user) \<Rightarrow> Inl (HTTPException 400 ''Username already registered'' [])
      | Inr None \<Rightarrow>
          (case get_user_by_email db (JStr e) of
             Inl err \<Rightarrow> Inl err
           | Inr (Some existing_email) \<Rightarrow> Inl (HTTPException 400 ''Email already registered'' [])
           | Inr None \<Rightarrow>
               (case get_password_hash salt password of
                  Inl err \<Rightarrow> Inl err
                | Inr hashed \<Rightarrow>
                    (let (db_user, db1) = add_user db e n hashed False;
                         tok = create_verification_token cfg now (id_user db_user) (email db_user);
                         db_user' = db_user\<lparr>verification_token := Some tok,
                                      verification_token_expires :=
                                        Some (now + hours (verification_token_expire_hours cfg))\<rparr>
                     in Inr (db_user', flush_user db1 db_user')))))"

definition login :: "settings \<Rightarrow> datetime \<Rightarrow> session \<Rightarrow> string \<Rightarrow> string \<Rightarrow> failure + (Token \<times> session)" where
  "login cfg now db n password =
     (case authenticate_user db n password of
        Inl e \<Rightarrow> Inl e
      | Inr None \<Rightarrow>
          Inl (HTTPException 401 ''Incorrect username or password''
                 [(''WWW-Authenticate'', ''Bearer'')])
      | Inr (Some u) \<Rightarrow>
          (let access_token_expires = minutes ACCESS_TOKEN_EXPIRE_MINUTES;
               access_token = create_access_token cfg now
                  [(''sub'', JStr (username u)), (''user_id'', JInt (id_user u))]
                  (Some access_token_expires)
           in Inr (Token access_token ''bearer'', db)))"

definition verify_email :: "settings \<Rightarrow> datetime \<Rightarrow> session \<Rightarrow> token \<Rightarrow> failure + (MessageResponse \<times> session)" where
  "verify_email cfg now db tok =
     (case verify_verification_token cfg now tok of
        None \<Rightarrow> Inl (HTTPException 400 ''Invalid or expired verification token'' [])
      | Some payload \<Rightarrow>
          if payload = [] then Inl (HTTPException 400 ''Invalid or expired verification token'' [])
          else
            (let user_id = dict_get payload ''user_id'';
                 e = dict_get payload ''sub''
             in case select_user_by_id db user_id of
                  Inl err \<Rightarrow> Inl err
                | Inr None \<Rightarrow> Inl (HTTPException 404 ''User not found'' [])
                | Inr (Some u) \<Rightarrow>
                    if JStr (email u) \<noteq> e
                    then Inl (HTTPException 400 ''Invalid verification token'' [])
                    else if email_verified u
                    then Inr (MessageResponse ''Email already verified'' True, db)
                    else
                      (case (case verification_token_expires u of
                               None \<Rightarrow> Inr False
                             | Some t \<Rightarrow> datetime_lt (Naive t) (Aware now)) of
                         Inl err \<Rightarrow> Inl err
                       | Inr True \<Rightarrow>
                           Inl (HTTPException 400
                                  ''Verification token has expired. Please request a new one.'' [])
                       | Inr False \<Rightarrow>
                           Inr (MessageResponse
                                  ''Email verified successfully! You can now use all features.''
                                  True,
                                flush_user db (u\<lparr>email_verified := True,
                                                 verification_token := None,
                                                 verification_token_expires := None\<rparr>)))))"

definition resend_verification_email :: "settings \<Rightarrow> datetime \<Rightarrow> session \<Rightarrow> string
    \<Rightarrow> failure + (MessageResponse \<times> session)" where
  "resend_verification_email cfg now db e =
     (case get_user_by_email db (JStr e) of
        Inl err \<Rightarrow> Inl err
      | Inr None \<Rightarrow>
          Inr (MessageResponse ''If the email exists, a verification link has been sent.'' True, db)
      | Inr (Some u) \<Rightarrow>
          if email_verified u then Inl (HTTPException 400 ''Email is already verified'' [])
          else
            (let tok = create_verification_token cfg now (id_user u) (email u);
                 u' = u\<lparr>verification_token := Some tok,
                        verification_token_expires :=
                          Some (now + hours (verification_token_expire_hours cfg))\<rparr>
             in Inr (MessageResponse ''Verification email sent. Please check your inbox.'' True,
                     flush_user db u')))"

section \<open>The invariant of a User row\<close>

definition user_invariant :: "user \<Rightarrow> bool" where
  "user_invariant u =
     (((verification_token u = None) = (verification_token_expires u = None))
      \<and> (email_verified u \<longrightarrow>
            verification_token u = None \<and> verification_token_expires u = None))"

definition session_invariant :: "session \<Rightarrow> bool" where
  "session_invariant db = list_all user_invariant db"

section \<open>Two concrete histories\<close>

text \<open>
  Alice registers at instant 0 and is sent the token \<open>T1\<close>; five seconds later she asks
  for the mail again and is sent \<open>T2\<close>. Bob registers with his e-mail address as his
  username and is sent \<open>TB\<close>. \<open>long_password\<close> is a password of 4097 characters.
\<close>

definition T1 :: token where
  "T1 = JWS ''your-secret-key-here-change-in-production''
          [(''sub'', JStr ''alice@x.com''), (''user_id'', JInt 1),
           (''type'', JStr ''email_verification''), (''exp'', JInt 86400)]"

definition T2 :: token where
  "T2 = JWS ''your-secret-key-here-change-in-production''
          [(''sub'', JStr ''alice@x.com''), (''user_id'', JInt 1),
           (''type'', JStr ''email_verification''), (''exp'', JInt 86405)]"

definition alice :: "bool \<Rightarrow> token option \<Rightarrow> datetime option \<Rightarrow> user" where
  "alice v tok t =
     \<lparr>id_user = 1, email = ''alice@x.com'', username = ''alice'',
      hashed_password = Argon2 ''NaCl'' ''password123'', email_verified = v,
      verification_token = tok, verification_token_expires = t\<rparr>"

definition TB :: token where
  "TB = JWS ''your-secret-key-here-change-in-production''
          [(''sub'', JStr ''bob@x.com''), (''user_id'', JInt 1),
           (''type'', JStr ''email_verification''), (''exp'', JInt 86400)]"

definition bob :: user where
  "bob =
     \<lparr>id_user = 1, email = ''bob@x.com'', username = ''bob@x.com'',
      hashed_password = Argon2 ''NaCl'' ''password123'', email_verified = False,
      verification_token = Some TB, verification_token_expires = Some 86400000000\<rparr>"

definition long_password :: string where
  "long_password = replicate 4097 (CHR ''a'')"

section \<open>Unfolding the concrete histories\<close>

lemmas scenario_defs = default_settings_def seconds_def minutes_def hours_def timegm_def
  alice_def bob_def T1_def T2_def TB_def

lemmas route_defs = get_user_by_username_def get_user_by_email_def select_user_by_id_def
  dict_get_def flush_user_def get_db_def Let_def

lemmas decode_defs = validate_claims_def validate_exp_def validate_aud_def validate_sub_def
  validate_jti_def validate_at_hash_def

section \<open>Token codec: round trip and rejection\<close>

















section \<open>Auth gate\<close>

lemma scalar_none_iff: "scalar_one_or_none xs = Inr None \<longleftrightarrow> xs = []"
  by (cases xs rule: scalar_one_or_none.cases) simp_all

lemma scalar_one_singleton: "scalar_one_or_none xs = Inr (Some x) \<Longrightarrow> xs = [x]"
  by (cases xs rule: scalar_one_or_none.cases) simp_all

lemma get_user_by_username_absent:
  "\<forall>u\<in>set db. username u \<noteq> n \<Longrightarrow> get_user_by_username db (JStr n) = Inr None"
  by (simp add: get_user_by_username_def scalar_none_iff filter_empty_conv)

lemma dict_get_missing: "map_of d k = None \<Longrightarrow> dict_get d k = JNull"
  by (simp add: dict_get_def)

text \<open>
  C7. For a validly signed, unexpired access token (one that \<open>decode_access_token\<close>
  accepts): when its claims lack \<^verbatim>\<open>sub\<close> or lack \<^verbatim>\<open>user_id\<close>, \<open>get_current_user\<close>
  raises the 401 \<open>credentials_exception\<close>; and when its \<^verbatim>\<open>sub\<close> is a username that no
  row of the table has, it raises the same exception, whatever the \<^verbatim>\<open>user_id\<close> claim
  says: the lookup is by username.
\<close>

theorem gate_requires_claims_and_user:
  assumes "decode_access_token cfg now tok = Some payload"
  shows "(map_of payload ''sub'' = None \<or> map_of payload ''user_id'' = None \<longrightarrow>
            get_current_user cfg now db tok = Inl credentials_exception)
       \<and> (dict_get payload ''sub'' = JStr n \<and> (\<forall>u\<in>set db. username u \<noteq> n) \<longrightarrow>
            get_current_user cfg now db tok = Inl credentials_exception)"
proof (intro conjI impI)
  assume "map_of payload ''sub'' = None \<or> map_of payload ''user_id'' = None"
  then have "dict_get payload ''sub'' = JNull \<or> dict_get payload ''user_id'' = JNull"
    by (auto simp: dict_get_missing)
  then show "get_current_user cfg now db tok = Inl credentials_exception"
    using assms by (auto simp: get_current_user_def Let_def)
next
  assume a: "dict_get payload ''sub'' = JStr n \<and> (\<forall>u\<in>set db. username u \<noteq> n)"
  then have "get_user_by_username db (dict_get payload ''sub'') = Inr None"
    by (simp add: get_user_by_username_absent)
  then show "get_current_user cfg now db tok = Inl credentials_exception"
    using assms by (simp add: get_current_user_def Let_def)
qed

theorem gate_requires_claims_and_user_witness:
  "decode_access_token default_settings (seconds 1)
       (create_access_token default_settings 0 [(''sub'', JStr ''alice'')] None)
     = Some [(''sub'', JStr ''alice''), (''exp'', JInt 1800)]
   \<and> map_of [(''sub'', JStr ''alice''), (''exp'', JInt 1800)] ''user_id'' = None
   \<and> get_current_user default_settings (seconds 1) [alice False None None]
       (create_access_token default_settings 0 [(''sub'', JStr ''alice'')] None)
     = Inl credentials_exception
   \<and> decode_access_token default_settings (seconds 1)
       (create_access_token default_settings 0
          [(''sub'', JStr ''mallory''), (''user_id'', JInt 1)] None)
     = Some [(''sub'', JStr ''mallory''), (''user_id'', JInt 1), (''exp'', JInt 1800)]
   \<and> ''mallory'' \<notin> set (map username [alice False None None])
   \<and> get_current_user default_settings (seconds 1) [alice False None None]
       (create_access_token default_settings 0
          [(''sub'', JStr ''mallory''), (''user_id'', JInt 1)] None)
     = Inl credentials_exception"
proof -
  have h1: "decode_access_token default_settings (seconds 1)
       (create_access_token default_settings 0 [(''sub'', JStr ''alice'')] None)
     = Some [(''sub'', JStr ''alice''), (''exp'', JInt 1800)]"
    by (simp add: decode_access_token_def create_access_token_def jwt_encode_def
        ACCESS_TOKEN_EXPIRE_MINUTES_def decode_defs scenario_defs)
  have h2: "decode_access_token default_settings (seconds 1)
       (create_access_token default_settings 0
          [(''sub'', JStr ''mallory''), (''user_id'', JInt 1)] None)
     = Some [(''sub'', JStr ''mallory''), (''user_id'', JInt 1), (''exp'', JInt 1800)]"
    by (simp add: decode_access_token_def create_access_token_def jwt_encode_def
        ACCESS_TOKEN_EXPIRE_MINUTES_def decode_defs scenario_defs)
  show ?thesis
    using h1 h2
      gate_requires_claims_and_user [OF h1, where db = "[alice False None None]"]
      gate_requires_claims_and_user [OF h2, where db = "[alice False None None]"
        and n = "''mallory''"]
    by (simp add: dict_get_def alice_def)
qed





section \<open>Credential hasher and login\<close>

lemma login_passes_on:
  assumes "get_user_by_username db (JStr n) = Inr (Some u)"
      and "verify_password p (hashed_password u) = Inl e"
  shows "login cfg now db n p = Inl e"
  using assms by (simp add: login_def authenticate_user_def)

lemma malformed_hash_verify:
  "malformed_hash h \<Longrightarrow> isl (verify_password p h)"
  by (cases h) (simp_all add: malformed_hash_def verify_password_def)

text \<open>
  C8, as the code has it. For every password and every malformed stored hash,
  \<open>verify_password\<close> does not return \<^verbatim>\<open>False\<close>: it installs no handler, so the exception
  of the hashing context reaches the caller; and \<open>login\<close> for a user whose stored hash is
  malformed raises that exception, through \<open>authenticate_user\<close>, instead of answering
  with the 401 for bad credentials.
\<close>

theorem malformed_hash_raises:
  "(malformed_hash h \<longrightarrow> isl (verify_password p h))
   \<and> (get_user_by_username db (JStr n) = Inr (Some u) \<and> malformed_hash (hashed_password u) \<longrightarrow>
        isl (verify_password p' (hashed_password u))
        \<and> login cfg now db n p' = Inl (projl (verify_password p' (hashed_password u))))"
proof (intro conjI impI)
  assume "malformed_hash h"
  then show "isl (verify_password p h)" by (rule malformed_hash_verify)
next
  assume a: "get_user_by_username db (JStr n) = Inr (Some u) \<and> malformed_hash (hashed_password u)"
  then show i: "isl (verify_password p' (hashed_password u))"
    by (simp add: malformed_hash_verify)
  then have "verify_password p' (hashed_password u) = Inl (projl (verify_password p' (hashed_password u)))"
    by simp
  with a show "login cfg now db n p' = Inl (projl (verify_password p' (hashed_password u)))"
    by (intro login_passes_on) auto
qed

theorem malformed_hash_raises_witness:
  "malformed_hash (MalformedArgon2 ''$argon2id$garbage'')
   \<and> verify_password ''password123'' (MalformedArgon2 ''$argon2id$garbage'') = Inl ValueError
   \<and> get_user_by_username
        [(alice False None None)\<lparr>hashed_password := Unidentified ''password123''\<rparr>] (JStr ''alice'')
     = Inr (Some ((alice False None None)\<lparr>hashed_password := Unidentified ''password123''\<rparr>))
   \<and> malformed_hash (Unidentified ''password123'')
   \<and> login default_settings 0
        [(alice False None None)\<lparr>hashed_password := Unidentified ''password123''\<rparr>]
        ''alice'' ''password123''
     = Inl UnknownHashError"
proof -
  let ?u = "(alice False None None)\<lparr>hashed_password := Unidentified ''password123''\<rparr>"
  have h1: "malformed_hash (MalformedArgon2 ''$argon2id$garbage'')"
    by (simp add: malformed_hash_def)
  have h2: "get_user_by_username [?u] (JStr ''alice'') = Inr (Some ?u)"
    by (simp add: get_user_by_username_def alice_def)
  have h3: "malformed_hash (hashed_password ?u)"
    by (simp add: malformed_hash_def)
  have v1: "verify_password ''password123'' (MalformedArgon2 ''$argon2id$garbage'') = Inl ValueError"
    by (simp add: verify_password_def MAX_PASSWORD_SIZE_def)
  show ?thesis
    using h1 h2 h3 v1
      malformed_hash_raises [where h = "MalformedArgon2 ''$argon2id$garbage''"
        and p = "''password123''" and db = "[?u]" and n = "''alice''" and u = ?u
        and p' = "''password123''" and cfg = default_settings and now = 0]
    by (simp add: verify_password_def malformed_hash_def)
qed

text \<open>
  C8 as stated fails: with the plain password stored in place of a hash,
  \<open>verify_password\<close> does not return \<^verbatim>\<open>False\<close>; it raises.
\<close>

theorem malformed_hash_counterexample:
  "verify_password ''password123'' (Unidentified ''password123'') = Inl UnknownHashError
   \<and> verify_password ''password123'' (Unidentified ''password123'') \<noteq> Inr False"
  by (simp add: verify_password_def)

text \<open>
  What \<open>login\<close> does get right of C9: it answers the same 401 when no row has the
  username and when a row has it and \<open>verify_password\<close> answers \<^verbatim>\<open>False\<close>, and it
  leaves the session as it found it.
\<close>

lemma login_rejections_coincide:
  "((\<forall>u\<in>set db. username u \<noteq> n) \<longrightarrow>
       login cfg now db n p
         = Inl (HTTPException 401 ''Incorrect username or password''
                  [(''WWW-Authenticate'', ''Bearer'')]))
   \<and> (get_user_by_username db (JStr n') = Inr (Some u)
        \<and> verify_password p' (hashed_password u) = Inr False \<longrightarrow>
       login cfg now db n' p'
         = Inl (HTTPException 401 ''Incorrect username or password''
                  [(''WWW-Authenticate'', ''Bearer'')]))
   \<and> get_db db (login cfg now db n'' p'') = db"
proof (intro conjI impI)
  assume "\<forall>u\<in>set db. username u \<noteq> n"
  then have "authenticate_user db n p = Inr None"
    by (simp add: authenticate_user_def get_user_by_username_absent)
  then show "login cfg now db n p
         = Inl (HTTPException 401 ''Incorrect username or password''
                  [(''WWW-Authenticate'', ''Bearer'')])"
    by (simp add: login_def)
next
  assume "get_user_by_username db (JStr n') = Inr (Some u)
        \<and> verify_password p' (hashed_password u) = Inr False"
  then have "authenticate_user db n' p' = Inr None"
    by (simp add: authenticate_user_def)
  then show "login cfg now db n' p'
         = Inl (HTTPException 401 ''Incorrect username or password''
                  [(''WWW-Authenticate'', ''Bearer'')])"
    by (simp add: login_def)
next
  show "get_db db (login cfg now db n'' p'') = db"
    by (simp add: get_db_def login_def Let_def split: sum.splits option.splits)
qed

text \<open>
  C9 fails on the code for a password of more than 4096 characters. Alice is
  registered; for her username the hashing context refuses the oversized password with
  \<^verbatim>\<open>PasswordSizeError\<close>, which \<open>login\<close> does not handle, while for a username that no
  row has the same password is answered with the 401 for bad credentials: the two
  outcomes differ, and tell an existing username from an unknown one.
\<close>

theorem login_oversized_password_failing_input:
  "length long_password = 4097
   \<and> get_user_by_username [alice False (Some T1) (Some 86400000000)] (JStr ''alice'')
       = Inr (Some (alice False (Some T1) (Some 86400000000)))
   \<and> get_user_by_username [alice False (Some T1) (Some 86400000000)] (JStr ''mallory'') = Inr None
   \<and> login default_settings (seconds 10) [alice False (Some T1) (Some 86400000000)]
        ''alice'' long_password
       = Inl PasswordSizeError
   \<and> login default_settings (seconds 10) [alice False (Some T1) (Some 86400000000)]
        ''mallory'' long_password
       = Inl (HTTPException 401 ''Incorrect username or password''
                [(''WWW-Authenticate'', ''Bearer'')])"
  by (simp add: login_def authenticate_user_def get_user_by_username_def verify_password_def
      MAX_PASSWORD_SIZE_def long_password_def alice_def)

section \<open>Verification lifecycle\<close>

lemma get_user_by_email_absent:
  "\<forall>u\<in>set db. email u \<noteq> e \<Longrightarrow> get_user_by_email db (JStr e) = Inr None"
  by (simp add: get_user_by_email_def scalar_none_iff filter_empty_conv)

lemma get_user_by_email_found:
  "get_user_by_email db v = Inr (Some u) \<Longrightarrow> v = JStr (email u) \<and> u \<in> set db"
proof -
  assume "get_user_by_email db v = Inr (Some u)"
  then have "filter (\<lambda>r. JStr (email r) = v) db = [u]"
    by (auto simp: get_user_by_email_def dest: scalar_one_singleton)
  then have "u \<in> set (filter (\<lambda>r. JStr (email r) = v) db)" by simp
  then show ?thesis by auto
qed

lemma filter_flush_user:
  "filter (\<lambda>r. id_user r = i) (flush_user db u')
     = map (\<lambda>r. if id_user r = id_user u' then u' else r) (filter (\<lambda>r. id_user r = i) db)"
  by (induction db) (auto simp: flush_user_def)

lemma select_after_flush:
  assumes "select_user_by_id db (JInt (id_user u)) = Inr (Some u)" and "id_user u' = id_user u"
  shows "select_user_by_id (flush_user db u') (JInt (id_user u)) = Inr (Some u')"
proof -
  have "filter (\<lambda>r. id_user r = id_user u) db = [u]"
    using assms(1) by (auto simp: select_user_by_id_def dest: scalar_one_singleton)
  then have "filter (\<lambda>r. id_user r = id_user u) (flush_user db u') = [u']"
    using assms(2) by (simp add: filter_flush_user)
  then show ?thesis by (simp add: select_user_by_id_def)
qed

lemma select_user_by_id_found:
  "select_user_by_id db v = Inr (Some u) \<Longrightarrow> v = JInt (id_user u) \<and> u \<in> set db"
proof -
  assume "select_user_by_id db v = Inr (Some u)"
  then have "filter (\<lambda>r. JInt (id_user r) = v) db = [u]"
    by (auto simp: select_user_by_id_def dest: scalar_one_singleton)
  then have "u \<in> set (filter (\<lambda>r. JInt (id_user r) = v) db)" by simp
  then show ?thesis by auto
qed

lemma verification_payload_nonempty:
  "verify_verification_token cfg now tok = Some payload \<Longrightarrow> payload \<noteq> []"
  by (auto simp: verify_verification_token_def dict_get_def split: sum.splits if_splits)

lemma verify_email_already:
  assumes "verify_verification_token cfg now tok = Some payload"
      and "select_user_by_id db (dict_get payload ''user_id'') = Inr (Some u)"
      and "dict_get payload ''sub'' = JStr (email u)"
      and "email_verified u"
  shows "verify_email cfg now db tok = Inr (MessageResponse ''Email already verified'' True, db)"
proof -
  have ne: "payload \<noteq> []"
    using assms(3) by (auto simp: dict_get_def)
  show ?thesis
    using assms ne by (simp add: verify_email_def Let_def)
qed

lemma verify_email_raises:
  assumes "verify_verification_token cfg now tok = Some payload"
      and "select_user_by_id db (dict_get payload ''user_id'') = Inr (Some u)"
      and "dict_get payload ''sub'' = JStr (email u)"
      and "\<not> email_verified u"
      and "verification_token_expires u = Some t"
  shows "verify_email cfg now db tok = Inl TypeError"
  using assms verification_payload_nonempty [OF assms(1)]
  by (simp add: verify_email_def Let_def)

text \<open>
  C3 fails on the code in its first half. Let a token pass
  \<open>verify_verification_token\<close> and name, by \<^verbatim>\<open>user_id\<close> and \<^verbatim>\<open>sub\<close>, the row \<open>u\<close>. If
  \<open>u\<close> is unverified, the token is the one stored on \<open>u\<close> and the stored expiry has not
  passed, \<open>verify_email\<close> does not verify the user: the expiry test orders the naive
  stored value against the aware clock reading and raises \<^verbatim>\<open>TypeError\<close>, and \<open>get_db\<close>
  rolls the session back. If \<open>u\<close> is verified already, \<open>verify_email\<close> answers success
  (\<^verbatim>\<open>Email already verified\<close>) and the session is unchanged, as the claim says.
\<close>

theorem verify_email_stored_expiry_raises:
  assumes "verify_verification_token cfg now tok = Some payload"
      and "select_user_by_id db (dict_get payload ''user_id'') = Inr (Some u)"
      and "dict_get payload ''sub'' = JStr (email u)"
  shows "(\<not> email_verified u \<and> verification_token u = Some tok
            \<and> verification_token_expires u = Some t \<and> now \<le> t \<longrightarrow>
          verify_email cfg now db tok = Inl TypeError
          \<and> get_db db (verify_email cfg now db tok) = db)
       \<and> (email_verified u \<longrightarrow>
          verify_email cfg now db tok = Inr (MessageResponse ''Email already verified'' True, db))"
proof (intro conjI impI)
  assume a: "\<not> email_verified u \<and> verification_token u = Some tok
            \<and> verification_token_expires u = Some t \<and> now \<le> t"
  with assms show r: "verify_email cfg now db tok = Inl TypeError"
    by (intro verify_email_raises) auto
  then show "get_db db (verify_email cfg now db tok) = db"
    by (simp add: get_db_def)
next
  assume "email_verified u"
  with assms show "verify_email cfg now db tok = Inr (MessageResponse ''Email already verified'' True, db)"
    by (rule verify_email_already)
qed

theorem verify_email_stored_expiry_raises_witness:
  "verify_verification_token default_settings (seconds 10) T1
     = Some [(''sub'', JStr ''alice@x.com''), (''user_id'', JInt 1),
             (''type'', JStr ''email_verification''), (''exp'', JInt 86400)]
   \<and> register default_settings 0 ''NaCl'' [] ''alice@x.com'' ''alice'' ''password123''
       = Inr (alice False (Some T1) (Some 86400000000), [alice False (Some T1) (Some 86400000000)])
   \<and> seconds 10 \<le> 86400000000
   \<and> verify_email default_settings (seconds 10) [alice False (Some T1) (Some 86400000000)] T1
       = Inl TypeError
   \<and> get_db [alice False (Some T1) (Some 86400000000)]
        (verify_email default_settings (seconds 10) [alice False (Some T1) (Some 86400000000)] T1)
       = [alice False (Some T1) (Some 86400000000)]
   \<and> verify_email default_settings (seconds 10) [alice True None None] T1
       = Inr (MessageResponse ''Email already verified'' True, [alice True None None])"
proof -
  let ?payload = "[(''sub'', JStr ''alice@x.com''), (''user_id'', JInt 1),
             (''type'', JStr ''email_verification''), (''exp'', JInt 86400)]"
  let ?u = "alice False (Some T1) (Some 86400000000)"
  have p: "verify_verification_token default_settings (seconds 10) T1 = Some ?payload"
    by (simp add: verify_verification_token_def dict_get_def decode_defs scenario_defs)
  have r: "register default_settings 0 ''NaCl'' [] ''alice@x.com'' ''alice'' ''password123''
       = Inr (?u, [?u])"
    by (simp add: register_def get_user_by_username_def get_user_by_email_def
        get_password_hash_def pwd_context_hash_def MAX_PASSWORD_SIZE_def add_user_def next_id_def
        create_verification_token_def jwt_encode_def default_settings_def hours_def
        timegm_def flush_user_def alice_def T1_def Let_def)
  have s1: "select_user_by_id [?u] (dict_get ?payload ''user_id'') = Inr (Some ?u)"
    by (simp add: select_user_by_id_def dict_get_def alice_def)
  have e1: "dict_get ?payload ''sub'' = JStr (email ?u)"
    by (simp add: dict_get_def alice_def)
  have a1: "\<not> email_verified ?u \<and> verification_token ?u = Some T1
            \<and> verification_token_expires ?u = Some 86400000000 \<and> seconds 10 \<le> 86400000000"
    by (simp add: alice_def seconds_def)
  have s2: "select_user_by_id [alice True None None] (dict_get ?payload ''user_id'')
              = Inr (Some (alice True None None))"
    by (simp add: select_user_by_id_def dict_get_def alice_def)
  have e2: "dict_get ?payload ''sub'' = JStr (email (alice True None None))"
    by (simp add: dict_get_def alice_def)
  have a2: "email_verified (alice True None None)"
    by (simp add: alice_def)
  show ?thesis
    using p r a1 a2
      verify_email_stored_expiry_raises [OF p s1 e1, where t = 86400000000]
      verify_email_stored_expiry_raises [OF p s2 e2]
    by (simp add: get_db_def)
qed








lemma session_invariant_flush:
  "session_invariant db \<Longrightarrow> user_invariant u \<Longrightarrow> session_invariant (flush_user db u)"
  by (induction db) (auto simp: session_invariant_def flush_user_def)

lemma session_invariant_append:
  "session_invariant db \<Longrightarrow> user_invariant u \<Longrightarrow> session_invariant (db @ [u])"
  by (simp add: session_invariant_def)

lemma register_invariant:
  assumes "session_invariant db"
  shows "session_invariant (get_db db (register cfg now salt db e n p))"
  using assms
  by (auto simp: get_db_def register_def add_user_def Let_def user_invariant_def
      intro!: session_invariant_flush session_invariant_append
      split: sum.splits option.splits)

lemma login_invariant:
  assumes "session_invariant db"
  shows "session_invariant (get_db db (login cfg now db n p))"
  using assms
  by (auto simp: get_db_def login_def Let_def split: sum.splits option.splits)

lemma verify_email_invariant:
  assumes "session_invariant db"
  shows "session_invariant (get_db db (verify_email cfg now db tok))"
  using assms
  by (auto simp: get_db_def verify_email_def Let_def user_invariant_def
      intro!: session_invariant_flush
      split: sum.splits option.splits if_splits)

lemma resend_invariant:
  assumes "session_invariant db"
  shows "session_invariant (get_db db (resend_verification_email cfg now db e))"
  using assms
  by (auto simp: get_db_def resend_verification_email_def Let_def user_invariant_def
      intro!: session_invariant_flush
      split: sum.splits option.splits if_splits)

text \<open>
  C4. Every operation preserves the invariant of the rows: when each row of the session
  has \<open>verification_token\<close> and \<open>verification_token_expires\<close> both set or both unset,
  and both unset once \<open>email_verified\<close> holds, the same is true of the session that
  \<open>get_db\<close> leaves after \<open>register\<close>, \<open>login\<close>, \<open>verify_email\<close> and
  \<open>resend_verification_email\<close>, whether the route returned or raised.
\<close>

theorem operations_preserve_invariant:
  assumes "session_invariant db"
  shows "session_invariant (get_db db (register cfg now salt db e n p))
       \<and> session_invariant (get_db db (login cfg now db n' p'))
       \<and> session_invariant (get_db db (verify_email cfg now db tok))
       \<and> session_invariant (get_db db (resend_verification_email cfg now db e'))"
  using assms
  by (intro conjI register_invariant login_invariant verify_email_invariant resend_invariant)

theorem operations_preserve_invariant_witness:
  "session_invariant [alice False (Some T1) (Some 86400000000)]
   \<and> session_invariant (get_db [alice False (Some T1) (Some 86400000000)]
        (register default_settings (seconds 5) ''NaCl'' [alice False (Some T1) (Some 86400000000)]
           ''carol@x.com'' ''carol'' ''password456''))
   \<and> session_invariant (get_db [alice False (Some T1) (Some 86400000000)]
        (login default_settings (seconds 5) [alice False (Some T1) (Some 86400000000)]
           ''alice'' ''password123''))
   \<and> session_invariant (get_db [alice False (Some T1) (Some 86400000000)]
        (verify_email default_settings (seconds 5) [alice False (Some T1) (Some 86400000000)] T1))
   \<and> session_invariant (get_db [alice False (Some T1) (Some 86400000000)]
        (resend_verification_email default_settings (seconds 5)
           [alice False (Some T1) (Some 86400000000)] ''alice@x.com''))
   \<and> get_db [alice False (Some T1) (Some 86400000000)]
        (resend_verification_email default_settings (seconds 5)
           [alice False (Some T1) (Some 86400000000)] ''alice@x.com'')
       = [alice False (Some T2) (Some 86405000000)]"
proof -
  have h: "session_invariant [alice False (Some T1) (Some 86400000000)]"
    by (simp add: session_invariant_def user_invariant_def alice_def)
  have v: "get_db [alice False (Some T1) (Some 86400000000)]
        (resend_verification_email default_settings (seconds 5)
           [alice False (Some T1) (Some 86400000000)] ''alice@x.com'')
       = [alice False (Some T2) (Some 86405000000)]"
    by (simp add: resend_verification_email_def create_verification_token_def jwt_encode_def
        route_defs scenario_defs)
  show ?thesis
    using h v
      operations_preserve_invariant [OF h, where cfg = default_settings and now = "seconds 5"
        and salt = "''NaCl''" and e = "''carol@x.com''" and n = "''carol''"
        and p = "''password456''" and n' = "''alice''" and p' = "''password123''"
        and tok = T1 and e' = "''alice@x.com''"]
    by simp
qed

text \<open>
  What \<open>resend_verification_email\<close> does get right of C10: for an e-mail address
  that no row has it answers a success message and leaves the session unchanged; for a
  row that is verified already it raises a 400 exception and issues nothing; for an
  unverified row it stores the new token and expiry.
\<close>

lemma resend_outcomes:
  "((\<forall>u\<in>set db. email u \<noteq> e) \<longrightarrow>
       resend_verification_email cfg now db e
         = Inr (MessageResponse ''If the email exists, a verification link has been sent.'' True, db))
   \<and> (get_user_by_email db (JStr e') = Inr (Some u) \<and> email_verified u \<longrightarrow>
       resend_verification_email cfg now db e'
         = Inl (HTTPException 400 ''Email is already verified'' []))
   \<and> (get_user_by_email db (JStr e'') = Inr (Some u') \<and> \<not> email_verified u' \<longrightarrow>
       resend_verification_email cfg now db e''
         = Inr (MessageResponse ''Verification email sent. Please check your inbox.'' True,
                flush_user db
                  (u'\<lparr>verification_token :=
                        Some (create_verification_token cfg now (id_user u') (email u')),
                      verification_token_expires :=
                        Some (now + hours (verification_token_expire_hours cfg))\<rparr>)))"
  by (simp add: resend_verification_email_def get_user_by_email_absent Let_def)

text \<open>
  C10 fails on the code: the answer for an unknown e-mail address can be told from the
  answer for a real unverified user. Both are a \<open>MessageResponse\<close> with the success
  flag set, but the message texts differ, although the comment in the route says not to
  reveal whether the address exists.
\<close>

theorem resend_distinguishable_failing_input:
  "get_user_by_email [alice False (Some T1) (Some 86400000000)] (JStr ''nobody@x.com'') = Inr None
   \<and> resend_verification_email default_settings (seconds 5)
        [alice False (Some T1) (Some 86400000000)] ''nobody@x.com''
     = Inr (MessageResponse ''If the email exists, a verification link has been sent.'' True,
            [alice False (Some T1) (Some 86400000000)])
   \<and> resend_verification_email default_settings (seconds 5)
        [alice False (Some T1) (Some 86400000000)] ''alice@x.com''
     = Inr (MessageResponse ''Verification email sent. Please check your inbox.'' True,
            [alice False (Some T2) (Some 86405000000)])
   \<and> ''If the email exists, a verification link has been sent.''
       \<noteq> ''Verification email sent. Please check your inbox.''"
  by (simp add: resend_verification_email_def get_user_by_email_def
      create_verification_token_def jwt_encode_def default_settings_def hours_def seconds_def
      timegm_def flush_user_def alice_def T1_def T2_def)

end
